theory Spec2Isabelle
  imports Main "HOL-Library.Sublist"
begin

section \<open>The host library seen from the script\<close>

text \<open>
  \<^verbatim>\<open>SimplePipeLine.py\<close> is a co-processing script: every statement of it that does
  anything is a call into the host library (\<^verbatim>\<open>paraview.simple\<close>,
  \<^verbatim>\<open>paraview.coprocessing\<close>, the data description handed in by the adaptor).
  The model keeps the script's control flow and makes the boundary explicit: each host
  call is an event, the host answers it or raises, and a raised exception ends the
  script function that made the call, as in Python.
\<close>

text \<open>A reference to an object owned by the host library.\<close>

datatype obj = Obj nat

text \<open>
  Python values the script passes as property values. A float literal is kept as the
  decimal text the source writes; nothing here computes with it.
\<close>

datatype pyval =
    PInt int
  | PFloat string
  | PStr string
  | PObj obj
  | PList "pyval list"

text \<open>
  The host calls the script makes, named as in the source. The receiver of a method is
  the first argument; keyword arguments are positional here, in the order the source
  writes them. \<open>SetProperty p name v\<close> is the attribute assignment \<^verbatim>\<open>p.name = v\<close> on a
  host proxy; \<open>NewCoProcessor\<close> is the instantiation \<^verbatim>\<open>CoProcessor()\<close>, which runs the
  host base class's initialiser; \<open>ImportFrom m n\<close> is \<^verbatim>\<open>from m import n\<close>;
  \<open>DisableFirstRenderCameraReset\<close> is \<^verbatim>\<open>paraview.simple._DisableFirstRenderCameraReset()\<close>
  and \<open>XMLPUnstructuredGridWriter x\<close> is
  \<^verbatim>\<open>servermanager.writers.XMLPUnstructuredGridWriter(Input=x)\<close>. The host interface is
  typed: \<^verbatim>\<open>GetForceOutput()\<close> returns a boolean, so the test \<^verbatim>\<open>== True\<close> of line 123 is
  the boolean itself, and \<^verbatim>\<open>GetNumberOfInputDescriptions()\<close> returns an integer.
\<close>

datatype call =
    ImportFrom string string
  | NewCoProcessor
  | SetUpdateFrequencies obj "(string \<times> int list) list"
  | EnableLiveVisualization obj bool int
  | DisableFirstRenderCameraReset
  | CreateView string
  | SetProperty obj string pyval
  | RegisterView obj obj string int int int int int "(string \<times> pyval) list"
  | CreateProducer obj obj string
  | XMLPUnstructuredGridWriter obj
  | RegisterWriter obj obj string int
  | GetColorTransferFunction string
  | GetOpacityTransferFunction string
  | Show obj obj
  | SetScalarBarVisibility obj obj bool
  | GetScalarBar obj obj
  | GetForceOutput obj
  | GetNumberOfInputDescriptions obj
  | GetInputDescription obj int
  | AllFieldsOn obj
  | GenerateMeshOn obj
  | LoadRequestedData obj obj
  | UpdateProducers obj obj
  | WriteData obj obj
  | WriteImages obj obj bool
  | DoLiveVisualization obj obj string int

text \<open>An exception raised inside the host library, and what a host call returns.\<close>

datatype exn = Exn string

datatype val = VNone | VBool bool | VInt int | VObj obj

text \<open>An event is a host call together with its outcome: the exception or the value.\<close>

type_synonym event = "call \<times> (exn + val)"

text \<open>
  The host is a parameter of every script function. Its answer to a call may depend on
  everything that has happened so far (the events before the call), which covers any
  internal state the library keeps. There is one answer function for each return type
  of the host interface: methods returning nothing, a boolean, an integer, an object.
\<close>

record host =
  run_proc :: "event list \<Rightarrow> call \<Rightarrow> exn option"
  run_bool :: "event list \<Rightarrow> call \<Rightarrow> exn + bool"
  run_int :: "event list \<Rightarrow> call \<Rightarrow> exn + int"
  run_obj :: "event list \<Rightarrow> call \<Rightarrow> exn + obj"

section \<open>Script computations\<close>

text \<open>
  A script computation takes the events so far and returns its result (an exception as
  \<open>Inl\<close>) with the events it added, oldest first.
\<close>

type_synonym 'a script = "event list \<Rightarrow> (exn + 'a) \<times> event list"

definition returnS :: "'a \<Rightarrow> 'a script" where
  "returnS x = (\<lambda>past. (Inr x, []))"

definition bindS :: "'a script \<Rightarrow> ('a \<Rightarrow> 'b script) \<Rightarrow> 'b script" where
  "bindS m f = (\<lambda>past.
     case m past of
       (Inl e, evs) \<Rightarrow> (Inl e, evs)
     | (Inr x, evs) \<Rightarrow> (case f x (past @ evs) of (r, evs') \<Rightarrow> (r, evs @ evs')))"

definition thenS :: "unit script \<Rightarrow> 'b script \<Rightarrow> 'b script" where
  "thenS m n = bindS m (\<lambda>_. n)"

definition procS :: "host \<Rightarrow> call \<Rightarrow> unit script" where
  "procS h c = (\<lambda>past.
     case run_proc h past c of
       Some e \<Rightarrow> (Inl e, [(c, Inl e)])
     | None \<Rightarrow> (Inr (), [(c, Inr VNone)]))"

definition boolS :: "host \<Rightarrow> call \<Rightarrow> bool script" where
  "boolS h c = (\<lambda>past.
     case run_bool h past c of
       Inl e \<Rightarrow> (Inl e, [(c, Inl e)])
     | Inr b \<Rightarrow> (Inr b, [(c, Inr (VBool b))]))"

definition intS :: "host \<Rightarrow> call \<Rightarrow> int script" where
  "intS h c = (\<lambda>past.
     case run_int h past c of
       Inl e \<Rightarrow> (Inl e, [(c, Inl e)])
     | Inr n \<Rightarrow> (Inr n, [(c, Inr (VInt n))]))"

definition objS :: "host \<Rightarrow> call \<Rightarrow> obj script" where
  "objS h c = (\<lambda>past.
     case run_obj h past c of
       Inl e \<Rightarrow> (Inl e, [(c, Inl e)])
     | Inr x \<Rightarrow> (Inr x, [(c, Inr (VObj x))]))"

text \<open>The calls of a list of events, and whether an event is a raised exception.\<close>

definition calls :: "event list \<Rightarrow> call list" where
  "calls evs = map fst evs"

fun raised :: "event \<Rightarrow> bool" where
  "raised (c, Inl e) = True"
| "raised (c, Inr v) = False"

section \<open>The pipeline\<close>

text \<open>
  The class \<^verbatim>\<open>Pipeline\<close> of \<^verbatim>\<open>_CreatePipeline\<close>: its attributes are the names the class
  body assigns, each bound to a host object.
\<close>

record Pipeline =
  renderView1 :: obj
  visnek3d :: obj
  parallelUnstructuredGridWriter1 :: obj
  pressureLUT :: obj
  pressurePWF :: obj
  visnek3dDisplay :: obj
  pressureLUTColorBar :: obj

text \<open>
  \<^verbatim>\<open>_CreatePipeline(coprocessor, datadescription)\<close>, lines 14 to 94. The class body runs
  once per call, statement by statement, and \<^verbatim>\<open>Pipeline()\<close> returns the instance.
\<close>

definition CreatePipeline_fn :: "host \<Rightarrow> obj \<Rightarrow> obj \<Rightarrow> Pipeline script" where
  "CreatePipeline_fn h coprocessor datadescription =
     thenS (procS h DisableFirstRenderCameraReset)
    (bindS (objS h (CreateView ''RenderView'')) (\<lambda>renderView1.
     thenS (procS h (SetProperty renderView1 ''ViewSize'' (PList [PInt 1546, PInt 836])))
    (thenS (procS h (SetProperty renderView1 ''AxesGrid'' (PStr ''GridAxes3DActor'')))
    (thenS (procS h (SetProperty renderView1 ''CenterOfRotation''
              (PList [PFloat ''0.5'', PFloat ''0.5'', PFloat ''0.0''])))
    (thenS (procS h (SetProperty renderView1 ''StereoType'' (PInt 0)))
    (thenS (procS h (SetProperty renderView1 ''CameraPosition''
              (PList [PFloat ''0.9191636267160087'', PFloat ''-2.2439272781775306'',
                      PFloat ''1.8685067216412112''])))
    (thenS (procS h (SetProperty renderView1 ''CameraFocalPoint''
              (PList [PFloat ''0.5000000000000001'', PFloat ''0.49999999999999967'',
                      PFloat ''1.4971058460759092e-15''])))
    (thenS (procS h (SetProperty renderView1 ''CameraViewUp''
              (PList [PFloat ''0.949015085039894'', PFloat ''0.2631540862484342'',
                      PFloat ''0.17355199583258799''])))
    (thenS (procS h (SetProperty renderView1 ''CameraParallelScale''
              (PFloat ''0.8660254037844386'')))
    (thenS (procS h (SetProperty renderView1 ''Background''
              (PList [PFloat ''0.32'', PFloat ''0.34'', PFloat ''0.43''])))
    (thenS (procS h (RegisterView coprocessor renderView1
              ''image_%t.png'' 1 1 1 1546 836 []))
    (bindS (objS h (CreateProducer coprocessor datadescription ''input'')) (\<lambda>visnek3d.
     bindS (objS h (XMLPUnstructuredGridWriter visnek3d)) (\<lambda>parallelUnstructuredGridWriter1.
     thenS (procS h (RegisterWriter coprocessor parallelUnstructuredGridWriter1
              ''filename_%t.pvtu'' 1))
    (bindS (objS h (GetColorTransferFunction ''pressure'')) (\<lambda>pressureLUT.
     thenS (procS h (SetProperty pressureLUT ''RGBPoints''
              (PList [PFloat ''0.0'', PFloat ''0.231373'', PFloat ''0.298039'',
                      PFloat ''0.752941'', PFloat ''5e-17'', PFloat ''0.865003'',
                      PFloat ''0.865003'', PFloat ''0.865003'', PFloat ''1e-16'',
                      PFloat ''0.705882'', PFloat ''0.0156863'', PFloat ''0.14902''])))
    (thenS (procS h (SetProperty pressureLUT ''ScalarRangeInitialized'' (PFloat ''1.0'')))
    (bindS (objS h (GetOpacityTransferFunction ''pressure'')) (\<lambda>pressurePWF.
     thenS (procS h (SetProperty pressurePWF ''Points''
              (PList [PFloat ''0.0'', PFloat ''0.0'', PFloat ''0.5'', PFloat ''0.0'',
                      PFloat ''1e-16'', PFloat ''1.0'', PFloat ''0.5'', PFloat ''0.0''])))
    (thenS (procS h (SetProperty pressurePWF ''ScalarRangeInitialized'' (PInt 1)))
    (bindS (objS h (Show visnek3d renderView1)) (\<lambda>visnek3dDisplay.
     thenS (procS h (SetProperty visnek3dDisplay ''ColorArrayName''
              (PList [PStr ''POINTS'', PStr ''pressure''])))
    (thenS (procS h (SetProperty visnek3dDisplay ''LookupTable'' (PObj pressureLUT)))
    (thenS (procS h (SetProperty visnek3dDisplay ''ScalarOpacityUnitDistance''
              (PFloat ''0.01546473935329355'')))
    (thenS (procS h (SetScalarBarVisibility visnek3dDisplay renderView1 True))
    (bindS (objS h (GetScalarBar pressureLUT renderView1)) (\<lambda>pressureLUTColorBar.
     thenS (procS h (SetProperty pressureLUTColorBar ''Title'' (PStr ''pressure'')))
    (thenS (procS h (SetProperty pressureLUTColorBar ''ComponentTitle'' (PStr '''')))
    (returnS \<lparr>renderView1 = renderView1, visnek3d = visnek3d,
        parallelUnstructuredGridWriter1 = parallelUnstructuredGridWriter1,
        pressureLUT = pressureLUT, pressurePWF = pressurePWF,
        visnek3dDisplay = visnek3dDisplay,
        pressureLUTColorBar = pressureLUTColorBar\<rparr>)))))))))))))))))))))))))))))"

text \<open>
  The method \<^verbatim>\<open>CoProcessor.CreatePipeline(self, datadescription)\<close>, lines 97 and 98, which
  the host calls back: the value returned is what the method stores in
  \<^verbatim>\<open>self.Pipeline\<close>.
\<close>

definition CreatePipeline :: "host \<Rightarrow> obj \<Rightarrow> obj \<Rightarrow> Pipeline script" where
  "CreatePipeline h self datadescription = CreatePipeline_fn h self datadescription"

section \<open>The module\<close>



text \<open>
  What the module's own statements bind at top level once it has been imported: the
  global \<open>coprocessor\<close> and, for each \<^verbatim>\<open>def\<close>, the function's name with its parameter
  names, in the order of the source. (The names the two \<^verbatim>\<open>import\<close> statements bring in
  belong to the host library.)
\<close>

record globals =
  coprocessor :: obj
  top_level_defs :: "(string \<times> string list) list"


section \<open>The data selection callback\<close>

text \<open>
  The loop of lines 126 to 128 over the indices \<^verbatim>\<open>range(n)\<close>: each iteration asks the
  host for the input description twice, once for each method.
\<close>

fun for_inputs :: "host \<Rightarrow> obj \<Rightarrow> int list \<Rightarrow> unit script" where
  "for_inputs h datadescription [] = returnS ()"
| "for_inputs h datadescription (i # is) =
     bindS (objS h (GetInputDescription datadescription i)) (\<lambda>d.
     thenS (procS h (AllFieldsOn d))
    (bindS (objS h (GetInputDescription datadescription i)) (\<lambda>d'.
     thenS (procS h (GenerateMeshOn d'))
           (for_inputs h datadescription is))))"

text \<open>
  \<^verbatim>\<open>RequestDataDescription(datadescription)\<close>, lines 120 to 133. \<^verbatim>\<open>range(n)\<close> is
  \<open>[0..n - 1]\<close>, empty when \<open>n \<le> 0\<close>.
\<close>

definition RequestDataDescription :: "host \<Rightarrow> globals \<Rightarrow> obj \<Rightarrow> unit script" where
  "RequestDataDescription h g datadescription =
     bindS (boolS h (GetForceOutput datadescription)) (\<lambda>force.
       if force = True then
         bindS (intS h (GetNumberOfInputDescriptions datadescription)) (\<lambda>n.
           for_inputs h datadescription [0..n - 1])
       else
         procS h (LoadRequestedData (coprocessor g) datadescription))"

section \<open>The processing callback\<close>

text \<open>\<^verbatim>\<open>DoCoProcessing(datadescription)\<close>, lines 137 to 152.\<close>

definition DoCoProcessing :: "host \<Rightarrow> globals \<Rightarrow> obj \<Rightarrow> unit script" where
  "DoCoProcessing h g datadescription =
     thenS (procS h (UpdateProducers (coprocessor g) datadescription))
    (thenS (procS h (WriteData (coprocessor g) datadescription))
    (thenS (procS h (WriteImages (coprocessor g) datadescription False))
           (procS h (DoLiveVisualization (coprocessor g) datadescription
              ''localhost'' 22222))))"

section \<open>Hosts to run the script on\<close>

text \<open>
  A host on which no call raises: \<^verbatim>\<open>GetForceOutput\<close> answers \<open>force\<close>,
  \<^verbatim>\<open>GetNumberOfInputDescriptions\<close> answers \<open>n\<close>, and every object returned is new (its
  number counts the events so far).
\<close>

definition quiet_host :: "bool \<Rightarrow> int \<Rightarrow> host" where
  "quiet_host force n =
     \<lparr>run_proc = (\<lambda>past c. None),
      run_bool = (\<lambda>past c. Inr force),
      run_int = (\<lambda>past c. Inr n),
      run_obj = (\<lambda>past c. Inr (Obj (100 + length past)))\<rparr>"

text \<open>The same host, except that the call \<open>bad\<close> raises \<open>e\<close>.\<close>

definition raising_host :: "call \<Rightarrow> exn \<Rightarrow> bool \<Rightarrow> int \<Rightarrow> host" where
  "raising_host bad e force n =
     \<lparr>run_proc = (\<lambda>past c. if c = bad then Some e else None),
      run_bool = (\<lambda>past c. if c = bad then Inl e else Inr force),
      run_int = (\<lambda>past c. if c = bad then Inl e else Inr n),
      run_obj = (\<lambda>past c. if c = bad then Inl e else Inr (Obj (100 + length past)))\<rparr>"

text \<open>Globals as an import leaves them, with the coprocessor \<open>Obj 7\<close>.\<close>

definition demo_globals :: globals where
  "demo_globals =
     \<lparr>coprocessor = Obj 7,
      top_level_defs = [(''CreateCoProcessor'', []),
                   (''RequestDataDescription'', [''datadescription'']),
                   (''DoCoProcessing'', [''datadescription''])]\<rparr>"

section \<open>Observations on events\<close>

text \<open>
  The outcome of a script function propagates host exceptions when: if it is an
  exception \<open>e\<close>, then \<open>e\<close> is what the last host call raised, and no call before the
  last raised; if it is a normal return, no host call raised.
\<close>

definition propagates :: "(exn + 'a) \<times> event list \<Rightarrow> bool" where
  "propagates out =
     (case out of
        (Inl e, evs) \<Rightarrow>
          evs \<noteq> [] \<and> snd (last evs) = Inl e \<and> (\<forall>ev \<in> set (butlast evs). \<not> raised ev)
      | (Inr x, evs) \<Rightarrow> (\<forall>ev \<in> set evs. \<not> raised ev))"


text \<open>
  The output artifact a call registers with the coprocessor: what is registered and under
  which file name pattern.
\<close>

datatype kind = View | Writer

fun artifact :: "call \<Rightarrow> (kind \<times> string) option" where
  "artifact (RegisterView cp v filename freq fittoscreen magnification width height cinema) =
     Some (View, filename)"
| "artifact (RegisterWriter cp w filename freq) = Some (Writer, filename)"
| "artifact c = None"

definition registrations :: "event list \<Rightarrow> call list" where
  "registrations evs = filter (\<lambda>c. artifact c \<noteq> None) (calls evs)"

text \<open>The objects the host returned, each with the call that returned it.\<close>

fun obtained :: "event list \<Rightarrow> (call \<times> obj) list" where
  "obtained [] = []"
| "obtained ((c, Inr (VObj x)) # evs) = (c, x) # obtained evs"
| "obtained (ev # evs) = obtained evs"

text \<open>The network endpoint a call hands to the live visualization.\<close>

fun endpoint :: "call \<Rightarrow> (string \<times> int) option" where
  "endpoint (DoLiveVisualization cp dd hostname port) = Some (hostname, port)"
| "endpoint c = None"






section \<open>Rules for script computations\<close>

text \<open>What a computation built with \<open>bindS\<close> and the host calls can have done.\<close>

lemma bindS_E:
  assumes "bindS m f past = (r, evs)"
  obtains (raise) e where "m past = (Inl e, evs)" and "r = Inl e"
  | (continue) x evs1 evs2 where "m past = (Inr x, evs1)"
      and "f x (past @ evs1) = (r, evs2)" and "evs = evs1 @ evs2"
  using assms unfolding bindS_def
  by (auto split: prod.splits sum.splits)

lemma thenS_E:
  assumes "thenS m n past = (r, evs)"
  obtains (raise) e where "m past = (Inl e, evs)" and "r = Inl e"
  | (continue) evs1 evs2 where "m past = (Inr (), evs1)"
      and "n (past @ evs1) = (r, evs2)" and "evs = evs1 @ evs2"
  using assms unfolding thenS_def by (erule bindS_E) auto

lemma procS_E:
  assumes "procS h c past = (r, evs)"
  obtains (raise) e where "r = Inl e" and "evs = [(c, Inl e)]" and "run_proc h past c = Some e"
  | (ok) "r = Inr ()" and "evs = [(c, Inr VNone)]" and "run_proc h past c = None"
proof (cases "run_proc h past c")
  case (Some e)
  with assms have "r = Inl e" and "evs = [(c, Inl e)]"
    by (simp_all add: procS_def)
  then show ?thesis using Some by (rule raise)
next
  case None
  with assms have "r = Inr ()" and "evs = [(c, Inr VNone)]"
    by (simp_all add: procS_def)
  then show ?thesis using None by (rule ok)
qed

lemma objS_E:
  assumes "objS h c past = (r, evs)"
  obtains (raise) e where "r = Inl e" and "evs = [(c, Inl e)]" and "run_obj h past c = Inl e"
  | (ok) x where "r = Inr x" and "evs = [(c, Inr (VObj x))]" and "run_obj h past c = Inr x"
proof (cases "run_obj h past c")
  case (Inl e)
  with assms have "r = Inl e" and "evs = [(c, Inl e)]"
    by (simp_all add: objS_def)
  then show ?thesis using Inl by (rule raise)
next
  case (Inr x)
  with assms have "r = Inr x" and "evs = [(c, Inr (VObj x))]"
    by (simp_all add: objS_def)
  then show ?thesis using Inr by (rule ok)
qed

lemma boolS_E:
  assumes "boolS h c past = (r, evs)"
  obtains (raise) e where "r = Inl e" and "evs = [(c, Inl e)]" and "run_bool h past c = Inl e"
  | (ok) b where "r = Inr b" and "evs = [(c, Inr (VBool b))]" and "run_bool h past c = Inr b"
proof (cases "run_bool h past c")
  case (Inl e)
  with assms have "r = Inl e" and "evs = [(c, Inl e)]"
    by (simp_all add: boolS_def)
  then show ?thesis using Inl by (rule raise)
next
  case (Inr b)
  with assms have "r = Inr b" and "evs = [(c, Inr (VBool b))]"
    by (simp_all add: boolS_def)
  then show ?thesis using Inr by (rule ok)
qed


lemma returnS_E:
  assumes "returnS x past = (r, evs)"
  obtains "r = Inr x" and "evs = []"
  using assms by (simp add: returnS_def)

text \<open>The same for a computation that returned normally.\<close>

lemma bindS_InrE:
  assumes "bindS m f past = (Inr y, evs)"
  obtains x evs1 evs2 where "m past = (Inr x, evs1)"
    and "f x (past @ evs1) = (Inr y, evs2)" and "evs = evs1 @ evs2"
  using assms by (cases rule: bindS_E) auto

lemma thenS_InrE:
  assumes "thenS m n past = (Inr y, evs)"
  obtains evs1 evs2 where "m past = (Inr (), evs1)"
    and "n (past @ evs1) = (Inr y, evs2)" and "evs = evs1 @ evs2"
  using assms by (cases rule: thenS_E) auto

lemma procS_InrE:
  assumes "procS h c past = (Inr u, evs)"
  obtains "evs = [(c, Inr VNone)]"
  using assms by (cases rule: procS_E) auto

lemma objS_InrE:
  assumes "objS h c past = (Inr x, evs)"
  obtains "evs = [(c, Inr (VObj x))]"
  using assms by (cases rule: objS_E) auto

lemma returnS_InrE:
  assumes "returnS x past = (Inr y, evs)"
  obtains "y = x" and "evs = []"
  using assms by (cases rule: returnS_E) auto

lemmas returns_elims = thenS_InrE bindS_InrE procS_InrE objS_InrE returnS_InrE

subsection \<open>A property of every call\<close>











subsection \<open>Exceptions end the computation\<close>

lemma propagates_returnS: "propagates (returnS x past)"
  by (simp add: propagates_def returnS_def)

lemma propagates_bindS:
  assumes m: "\<And>past. propagates (m past)" and f: "\<And>x past. propagates (f x past)"
  shows "propagates (bindS m f past)"
proof -
  obtain r evs where run: "bindS m f past = (r, evs)"
    by (cases "bindS m f past")
  from run show ?thesis
  proof (cases rule: bindS_E)
    case (raise e)
    with m [of past] run show ?thesis by (simp add: propagates_def)
  next
    case (continue x evs1 evs2)
    from m [of past] continue(1) have ok1: "\<forall>ev \<in> set evs1. \<not> raised ev"
      by (simp add: propagates_def)
    from f [of x "past @ evs1"] continue(2) have p2: "propagates (r, evs2)"
      by simp
    show ?thesis
    proof (cases r)
      case (Inl e)
      with p2 have "evs2 \<noteq> []" and "snd (last evs2) = Inl e"
        and "\<forall>ev \<in> set (butlast evs2). \<not> raised ev"
        by (simp_all add: propagates_def)
      with ok1 Inl show ?thesis
        unfolding run continue(3) by (auto simp: propagates_def butlast_append)
    next
      case (Inr y)
      with p2 ok1 show ?thesis
        unfolding run continue(3) by (auto simp: propagates_def)
    qed
  qed
qed

lemma propagates_thenS:
  "(\<And>past. propagates (m past)) \<Longrightarrow> (\<And>past. propagates (n past)) \<Longrightarrow> propagates (thenS m n past)"
  unfolding thenS_def by (rule propagates_bindS)

lemma propagates_procS: "propagates (procS h c past)"
  by (simp add: propagates_def procS_def split: option.splits)

lemma propagates_objS: "propagates (objS h c past)"
  by (simp add: propagates_def objS_def split: sum.splits)

lemma propagates_boolS: "propagates (boolS h c past)"
  by (simp add: propagates_def boolS_def split: sum.splits)

lemma propagates_intS: "propagates (intS h c past)"
  by (simp add: propagates_def intS_def split: sum.splits)

lemmas propagates_intros =
  propagates_thenS propagates_bindS propagates_procS propagates_objS propagates_boolS
  propagates_intS propagates_returnS

section \<open>The script functions, case by case\<close>



lemma CreatePipeline_fn_returns:
  assumes "CreatePipeline_fn h cp dd past = (Inr p, evs)"
  shows "registrations evs =
      [RegisterView cp (renderView1 p) ''image_%t.png'' 1 1 1 1546 836 [],
       RegisterWriter cp (parallelUnstructuredGridWriter1 p) ''filename_%t.pvtu'' 1]
    \<and> obtained evs =
      [(CreateView ''RenderView'', renderView1 p),
       (CreateProducer cp dd ''input'', visnek3d p),
       (XMLPUnstructuredGridWriter (visnek3d p), parallelUnstructuredGridWriter1 p),
       (GetColorTransferFunction ''pressure'', pressureLUT p),
       (GetOpacityTransferFunction ''pressure'', pressurePWF p),
       (Show (visnek3d p) (renderView1 p), visnek3dDisplay p),
       (GetScalarBar (pressureLUT p) (renderView1 p), pressureLUTColorBar p)]"
  using assms unfolding CreatePipeline_fn_def
  by (elim returns_elims) (simp add: registrations_def calls_def)


lemma propagates_for_inputs: "propagates (for_inputs h dd is past)"
  by (induction "is" arbitrary: past) (auto intro!: propagates_intros)



lemma DoCoProcessing_outcomes:
  assumes "DoCoProcessing h g dd past = (r, evs)"
  shows "(\<exists>e. r = Inl e \<and> evs = [(UpdateProducers (coprocessor g) dd, Inl e)])
    \<or> (\<exists>e. r = Inl e \<and> evs = [(UpdateProducers (coprocessor g) dd, Inr VNone),
          (WriteData (coprocessor g) dd, Inl e)])
    \<or> (\<exists>e. r = Inl e \<and> evs = [(UpdateProducers (coprocessor g) dd, Inr VNone),
          (WriteData (coprocessor g) dd, Inr VNone),
          (WriteImages (coprocessor g) dd False, Inl e)])
    \<or> (\<exists>e. r = Inl e \<and> evs = [(UpdateProducers (coprocessor g) dd, Inr VNone),
          (WriteData (coprocessor g) dd, Inr VNone),
          (WriteImages (coprocessor g) dd False, Inr VNone),
          (DoLiveVisualization (coprocessor g) dd ''localhost'' 22222, Inl e)])
    \<or> (r = Inr () \<and> evs = [(UpdateProducers (coprocessor g) dd, Inr VNone),
          (WriteData (coprocessor g) dd, Inr VNone),
          (WriteImages (coprocessor g) dd False, Inr VNone),
          (DoLiveVisualization (coprocessor g) dd ''localhost'' 22222, Inr VNone)])"
  using assms unfolding DoCoProcessing_def
  by (elim thenS_E procS_E) auto

text \<open>Unfolding the computations on a concrete host.\<close>

lemmas run_defs =
  thenS_def bindS_def procS_def objS_def boolS_def intS_def returnS_def
  quiet_host_def raising_host_def demo_globals_def calls_def

lemma quiet_pipeline_fst:
  "fst (CreatePipeline (quiet_host False 0) (Obj 7) (Obj 1) []) =
     Inr \<lparr>renderView1 = Obj 101, visnek3d = Obj 112,
        parallelUnstructuredGridWriter1 = Obj 113, pressureLUT = Obj 115,
        pressurePWF = Obj 118, visnek3dDisplay = Obj 121,
        pressureLUTColorBar = Obj 126\<rparr>"
  by (simp add: CreatePipeline_def CreatePipeline_fn_def run_defs)

lemma quiet_pipeline_obtained:
  "obtained (snd (CreatePipeline (quiet_host False 0) (Obj 7) (Obj 1) [])) =
     [(CreateView ''RenderView'', Obj 101),
      (CreateProducer (Obj 7) (Obj 1) ''input'', Obj 112),
      (XMLPUnstructuredGridWriter (Obj 112), Obj 113),
      (GetColorTransferFunction ''pressure'', Obj 115),
      (GetOpacityTransferFunction ''pressure'', Obj 118),
      (Show (Obj 112) (Obj 101), Obj 121),
      (GetScalarBar (Obj 115) (Obj 101), Obj 126)]"
  by (simp add: CreatePipeline_def CreatePipeline_fn_def run_defs)

section \<open>The script against its specification\<close>





text \<open>
  C3. Whatever the host does and whatever data description is passed, every live
  visualization call \<^verbatim>\<open>DoCoProcessing\<close> makes has the endpoint \<^verbatim>\<open>localhost\<close>, 22222; and
  unless one of the calls before it raised, \<^verbatim>\<open>DoCoProcessing\<close> makes exactly one such
  call, \<^verbatim>\<open>DoLiveVisualization(datadescription, "localhost", 22222)\<close> on the module's
  coprocessor.
\<close>

theorem live_visualization_endpoint:
  "(\<forall>c \<in> set (calls (snd (DoCoProcessing h g dd past))).
      endpoint c \<in> {None, Some (''localhost'', 22222)})
   \<and> ((\<forall>ev \<in> set (snd (DoCoProcessing h g dd past)). raised ev \<longrightarrow> endpoint (fst ev) \<noteq> None)
        \<longrightarrow> filter (\<lambda>c. endpoint c \<noteq> None) (calls (snd (DoCoProcessing h g dd past))) =
          [DoLiveVisualization (coprocessor g) dd ''localhost'' 22222])"
proof -
  obtain r evs where run: "DoCoProcessing h g dd past = (r, evs)"
    by (cases "DoCoProcessing h g dd past")
  from DoCoProcessing_outcomes [OF run] show ?thesis
    unfolding run by (auto simp: calls_def)
qed

theorem live_visualization_endpoint_witness:
  "filter raised (snd (DoCoProcessing (quiet_host False 0) demo_globals (Obj 1) [])) = []
   \<and> filter (\<lambda>c. endpoint c \<noteq> None)
        (calls (snd (DoCoProcessing (quiet_host False 0) demo_globals (Obj 1) []))) =
      [DoLiveVisualization (Obj 7) (Obj 1) ''localhost'' 22222]"
  using live_visualization_endpoint [of "quiet_host False 0" demo_globals "Obj 1" "[]"]
  by (simp add: DoCoProcessing_def run_defs)

text \<open>
  C4, as amended. When \<^verbatim>\<open>CreatePipeline\<close> returns the pipeline \<open>p\<close>, the objects it has
  obtained from the host are exactly seven, in this order: one render view; one producer
  for the simulation input \<^verbatim>\<open>input\<close>; one parallel unstructured-grid writer whose input
  is that producer; the color and the opacity transfer function for \<^verbatim>\<open>pressure\<close>; the
  display of the producer in the render view, from \<^verbatim>\<open>Show\<close>; and the color legend of the
  color transfer function in the render view, from \<^verbatim>\<open>GetScalarBar\<close>. They are the seven
  attributes of \<open>p\<close>.
\<close>

theorem pipeline_objects:
  assumes "CreatePipeline h cp dd past = (Inr p, evs)"
  shows "obtained evs =
      [(CreateView ''RenderView'', renderView1 p),
       (CreateProducer cp dd ''input'', visnek3d p),
       (XMLPUnstructuredGridWriter (visnek3d p), parallelUnstructuredGridWriter1 p),
       (GetColorTransferFunction ''pressure'', pressureLUT p),
       (GetOpacityTransferFunction ''pressure'', pressurePWF p),
       (Show (visnek3d p) (renderView1 p), visnek3dDisplay p),
       (GetScalarBar (pressureLUT p) (renderView1 p), pressureLUTColorBar p)]"
  using assms unfolding CreatePipeline_def by (simp add: CreatePipeline_fn_returns)

theorem pipeline_objects_witness:
  "fst (CreatePipeline (quiet_host False 0) (Obj 7) (Obj 1) []) =
     Inr \<lparr>renderView1 = Obj 101, visnek3d = Obj 112,
        parallelUnstructuredGridWriter1 = Obj 113, pressureLUT = Obj 115,
        pressurePWF = Obj 118, visnek3dDisplay = Obj 121,
        pressureLUTColorBar = Obj 126\<rparr>
   \<and> obtained (snd (CreatePipeline (quiet_host False 0) (Obj 7) (Obj 1) [])) =
      [(CreateView ''RenderView'', Obj 101),
       (CreateProducer (Obj 7) (Obj 1) ''input'', Obj 112),
       (XMLPUnstructuredGridWriter (Obj 112), Obj 113),
       (GetColorTransferFunction ''pressure'', Obj 115),
       (GetOpacityTransferFunction ''pressure'', Obj 118),
       (Show (Obj 112) (Obj 101), Obj 121),
       (GetScalarBar (Obj 115) (Obj 101), Obj 126)]"
proof -
  let ?run = "CreatePipeline (quiet_host False 0) (Obj 7) (Obj 1) []"
  let ?p = \<open>\<lparr>renderView1 = Obj 101, visnek3d = Obj 112,
        parallelUnstructuredGridWriter1 = Obj 113, pressureLUT = Obj 115,
        pressurePWF = Obj 118, visnek3dDisplay = Obj 121,
        pressureLUTColorBar = Obj 126\<rparr>\<close>
  have result: "fst ?run = Inr ?p"
    by (rule quiet_pipeline_fst)
  then have run: "?run = (Inr ?p, snd ?run)"
    by (simp add: prod_eq_iff)
  from pipeline_objects [OF run] have "obtained (snd ?run) =
      [(CreateView ''RenderView'', Obj 101),
       (CreateProducer (Obj 7) (Obj 1) ''input'', Obj 112),
       (XMLPUnstructuredGridWriter (Obj 112), Obj 113),
       (GetColorTransferFunction ''pressure'', Obj 115),
       (GetOpacityTransferFunction ''pressure'', Obj 118),
       (Show (Obj 112) (Obj 101), Obj 121),
       (GetScalarBar (Obj 115) (Obj 101), Obj 126)]"
    by simp
  with result show ?thesis by (rule conjI)
qed

text \<open>
  C4 as the specification states it, that the five objects named are all the pipeline
  construction obtains, fails on a host where nothing raises: the construction returns,
  and the objects obtained are not those five but seven.
\<close>

theorem pipeline_five_nodes_counterexample:
  "fst (CreatePipeline (quiet_host False 0) (Obj 7) (Obj 1) []) =
     Inr \<lparr>renderView1 = Obj 101, visnek3d = Obj 112,
        parallelUnstructuredGridWriter1 = Obj 113, pressureLUT = Obj 115,
        pressurePWF = Obj 118, visnek3dDisplay = Obj 121,
        pressureLUTColorBar = Obj 126\<rparr>
   \<and> obtained (snd (CreatePipeline (quiet_host False 0) (Obj 7) (Obj 1) [])) \<noteq>
      [(CreateView ''RenderView'', Obj 101),
       (CreateProducer (Obj 7) (Obj 1) ''input'', Obj 112),
       (XMLPUnstructuredGridWriter (Obj 112), Obj 113),
       (GetColorTransferFunction ''pressure'', Obj 115),
       (GetOpacityTransferFunction ''pressure'', Obj 118)]
   \<and> length (obtained (snd (CreatePipeline (quiet_host False 0) (Obj 7) (Obj 1) []))) = 7"
  using quiet_pipeline_fst quiet_pipeline_obtained by simp

text \<open>
  C5. Both callbacks propagate host exceptions: if the callback ends with an exception,
  it is the exception the last host call raised, unchanged, and no earlier call raised;
  if it returns normally, no host call raised. So an exception raised by any host call
  ends the callback at that call and is its outcome.
\<close>

theorem callbacks_propagate_exceptions:
  "propagates (RequestDataDescription h g dd past) \<and> propagates (DoCoProcessing h g dd past)"
  unfolding RequestDataDescription_def DoCoProcessing_def
  by (auto intro!: propagates_intros propagates_for_inputs)

theorem callbacks_propagate_exceptions_witness:
  "propagates (RequestDataDescription
       (raising_host (GenerateMeshOn (Obj 104)) (Exn ''no mesh'') True 2)
       demo_globals (Obj 1) [])
   \<and> RequestDataDescription
       (raising_host (GenerateMeshOn (Obj 104)) (Exn ''no mesh'') True 2)
       demo_globals (Obj 1) [] =
      (Inl (Exn ''no mesh''),
       [(GetForceOutput (Obj 1), Inr (VBool True)),
        (GetNumberOfInputDescriptions (Obj 1), Inr (VInt 2)),
        (GetInputDescription (Obj 1) 0, Inr (VObj (Obj 102))),
        (AllFieldsOn (Obj 102), Inr VNone),
        (GetInputDescription (Obj 1) 0, Inr (VObj (Obj 104))),
        (GenerateMeshOn (Obj 104), Inl (Exn ''no mesh''))])
   \<and> propagates (DoCoProcessing
       (raising_host (WriteData (Obj 7) (Obj 1)) (Exn ''disk full'') True 2)
       demo_globals (Obj 1) [])
   \<and> DoCoProcessing
       (raising_host (WriteData (Obj 7) (Obj 1)) (Exn ''disk full'') True 2)
       demo_globals (Obj 1) [] =
      (Inl (Exn ''disk full''),
       [(UpdateProducers (Obj 7) (Obj 1), Inr VNone),
        (WriteData (Obj 7) (Obj 1), Inl (Exn ''disk full''))])"
  using callbacks_propagate_exceptions
      [of "raising_host (GenerateMeshOn (Obj 104)) (Exn ''no mesh'') True 2"
        demo_globals "Obj 1" "[]"]
    callbacks_propagate_exceptions
      [of "raising_host (WriteData (Obj 7) (Obj 1)) (Exn ''disk full'') True 2"
        demo_globals "Obj 1" "[]"]
  by (simp add: RequestDataDescription_def DoCoProcessing_def run_defs upto.simps)







end
